theory Spec2Isabelle
  imports Main "HOL-Library.Word"
begin

unbundle bit_operations_syntax

section \<open>Euler order descriptors (vector/types.h)\<close>

text \<open>
  The macro of types.h, line 111:
  \<^verbatim>\<open>#define VECTOR_GETEULERORDER(i, p, r, f) ((((((i << 1) + p) << 1) + r) << 1) + f)\<close>
  Its arguments and its value are C \<^verbatim>\<open>int\<close> constants (enumerators); every use in the
  source passes literals between 0 and 2, so no shift or sum leaves the range of
  \<^verbatim>\<open>int\<close> and the integers are modelled as \<^typ>\<open>int\<close>. The macro adds where the
  documentation writes a bitwise or.
\<close>

definition VECTOR_GETEULERORDER :: "int \<Rightarrow> int \<Rightarrow> int \<Rightarrow> int \<Rightarrow> int" where
  "VECTOR_GETEULERORDER i p r f = push_bit 1 (push_bit 1 (push_bit 1 i + p) + r) + f"

definition VECTOR_EULER_STATICFRAME :: int where "VECTOR_EULER_STATICFRAME = 0"
definition VECTOR_EULER_ROTATEFRAME :: int where "VECTOR_EULER_ROTATEFRAME = 1"
definition VECTOR_EULER_NOREPEAT :: int where "VECTOR_EULER_NOREPEAT = 0"
definition VECTOR_EULER_REPEAT :: int where "VECTOR_EULER_REPEAT = 1"
definition VECTOR_EULER_EVEN :: int where "VECTOR_EULER_EVEN = 0"
definition VECTOR_EULER_ODD :: int where "VECTOR_EULER_ODD = 1"

lemmas euler_flag_defs =
  VECTOR_EULER_STATICFRAME_def VECTOR_EULER_ROTATEFRAME_def VECTOR_EULER_NOREPEAT_def
  VECTOR_EULER_REPEAT_def VECTOR_EULER_EVEN_def VECTOR_EULER_ODD_def

text \<open>
  The named enumerators of \<^verbatim>\<open>euler_angles_order_t\<close>, in the order of the source.
  \<^verbatim>\<open>EULER_DEFAULTORDER\<close> is a further enumerator of the same enum with a value of its
  own initialiser; it is the constant \<open>EULER_DEFAULTORDER\<close> below.
\<close>

datatype euler_angles_order_t =
    EULER_XYZs | EULER_XYXs | EULER_XZYs | EULER_XZXs
  | EULER_YZXs | EULER_YZYs | EULER_YXZs | EULER_YXYs
  | EULER_ZXYs | EULER_ZXZs | EULER_ZYXs | EULER_ZYZs
  | EULER_ZYXr | EULER_XYXr | EULER_YZXr | EULER_XZXr
  | EULER_XZYr | EULER_YZYr | EULER_ZXYr | EULER_YXYr
  | EULER_YXZr | EULER_ZXZr | EULER_XYZr | EULER_ZYZr

text \<open>The macro arguments \<open>(i, p, r, f)\<close> of each enumerator's initialiser.\<close>

fun euler_order_args :: "euler_angles_order_t \<Rightarrow> int \<times> int \<times> int \<times> int" where
  "euler_order_args EULER_XYZs = (0, VECTOR_EULER_EVEN, VECTOR_EULER_NOREPEAT, VECTOR_EULER_STATICFRAME)"
| "euler_order_args EULER_XYXs = (0, VECTOR_EULER_EVEN, VECTOR_EULER_REPEAT, VECTOR_EULER_STATICFRAME)"
| "euler_order_args EULER_XZYs = (0, VECTOR_EULER_ODD, VECTOR_EULER_NOREPEAT, VECTOR_EULER_STATICFRAME)"
| "euler_order_args EULER_XZXs = (0, VECTOR_EULER_ODD, VECTOR_EULER_REPEAT, VECTOR_EULER_STATICFRAME)"
| "euler_order_args EULER_YZXs = (1, VECTOR_EULER_EVEN, VECTOR_EULER_NOREPEAT, VECTOR_EULER_STATICFRAME)"
| "euler_order_args EULER_YZYs = (1, VECTOR_EULER_EVEN, VECTOR_EULER_REPEAT, VECTOR_EULER_STATICFRAME)"
| "euler_order_args EULER_YXZs = (1, VECTOR_EULER_ODD, VECTOR_EULER_NOREPEAT, VECTOR_EULER_STATICFRAME)"
| "euler_order_args EULER_YXYs = (1, VECTOR_EULER_ODD, VECTOR_EULER_REPEAT, VECTOR_EULER_STATICFRAME)"
| "euler_order_args EULER_ZXYs = (2, VECTOR_EULER_EVEN, VECTOR_EULER_NOREPEAT, VECTOR_EULER_STATICFRAME)"
| "euler_order_args EULER_ZXZs = (2, VECTOR_EULER_EVEN, VECTOR_EULER_REPEAT, VECTOR_EULER_STATICFRAME)"
| "euler_order_args EULER_ZYXs = (2, VECTOR_EULER_ODD, VECTOR_EULER_NOREPEAT, VECTOR_EULER_STATICFRAME)"
| "euler_order_args EULER_ZYZs = (2, VECTOR_EULER_ODD, VECTOR_EULER_REPEAT, VECTOR_EULER_STATICFRAME)"
| "euler_order_args EULER_ZYXr = (0, VECTOR_EULER_EVEN, VECTOR_EULER_NOREPEAT, VECTOR_EULER_ROTATEFRAME)"
| "euler_order_args EULER_XYXr = (0, VECTOR_EULER_EVEN, VECTOR_EULER_REPEAT, VECTOR_EULER_ROTATEFRAME)"
| "euler_order_args EULER_YZXr = (0, VECTOR_EULER_ODD, VECTOR_EULER_NOREPEAT, VECTOR_EULER_ROTATEFRAME)"
| "euler_order_args EULER_XZXr = (0, VECTOR_EULER_ODD, VECTOR_EULER_REPEAT, VECTOR_EULER_ROTATEFRAME)"
| "euler_order_args EULER_XZYr = (1, VECTOR_EULER_EVEN, VECTOR_EULER_NOREPEAT, VECTOR_EULER_ROTATEFRAME)"
| "euler_order_args EULER_YZYr = (1, VECTOR_EULER_EVEN, VECTOR_EULER_REPEAT, VECTOR_EULER_ROTATEFRAME)"
| "euler_order_args EULER_ZXYr = (1, VECTOR_EULER_ODD, VECTOR_EULER_NOREPEAT, VECTOR_EULER_ROTATEFRAME)"
| "euler_order_args EULER_YXYr = (1, VECTOR_EULER_ODD, VECTOR_EULER_REPEAT, VECTOR_EULER_ROTATEFRAME)"
| "euler_order_args EULER_YXZr = (2, VECTOR_EULER_EVEN, VECTOR_EULER_NOREPEAT, VECTOR_EULER_ROTATEFRAME)"
| "euler_order_args EULER_ZXZr = (2, VECTOR_EULER_EVEN, VECTOR_EULER_REPEAT, VECTOR_EULER_ROTATEFRAME)"
| "euler_order_args EULER_XYZr = (2, VECTOR_EULER_ODD, VECTOR_EULER_NOREPEAT, VECTOR_EULER_ROTATEFRAME)"
| "euler_order_args EULER_ZYZr = (2, VECTOR_EULER_ODD, VECTOR_EULER_REPEAT, VECTOR_EULER_ROTATEFRAME)"

text \<open>The integer value of an enumerator: the macro applied to its arguments.\<close>

definition euler_order_value :: "euler_angles_order_t \<Rightarrow> int" where
  "euler_order_value e = (case euler_order_args e of (i, p, r, f) \<Rightarrow> VECTOR_GETEULERORDER i p r f)"

definition EULER_DEFAULTORDER :: int where
  "EULER_DEFAULTORDER =
     VECTOR_GETEULERORDER 0 VECTOR_EULER_EVEN VECTOR_EULER_NOREPEAT VECTOR_EULER_STATICFRAME"

text \<open>The enumerators as a list, in the order of their declaration.\<close>

definition euler_angles_orders :: "euler_angles_order_t list" where
  "euler_angles_orders =
     [EULER_XYZs, EULER_XYXs, EULER_XZYs, EULER_XZXs,
      EULER_YZXs, EULER_YZYs, EULER_YXZs, EULER_YXYs,
      EULER_ZXYs, EULER_ZXZs, EULER_ZYXs, EULER_ZYZs,
      EULER_ZYXr, EULER_XYXr, EULER_YZXr, EULER_XZXr,
      EULER_XZYr, EULER_YZYr, EULER_ZXYr, EULER_YXYr,
      EULER_YXZr, EULER_ZXZr, EULER_XYZr, EULER_ZYZr]"

text \<open>
  The domain of the descriptor: the initial axis is one of three, parity, repetition and
  frame are binary.
\<close>

definition euler_order_in_range :: "int \<Rightarrow> int \<Rightarrow> int \<Rightarrow> int \<Rightarrow> bool" where
  "euler_order_in_range i p r f \<longleftrightarrow>
     i \<in> {0, 1, 2} \<and> p \<in> {0, 1} \<and> r \<in> {0, 1} \<and> f \<in> {0, 1}"

text \<open>
  The packing formula in the words of the specification, with bitwise or:
  \<^verbatim>\<open>order = (((axis<<1 | parity)<<1 | repeat)<<1 | frame)\<close>.
\<close>

definition euler_order_spec :: "int \<Rightarrow> int \<Rightarrow> int \<Rightarrow> int \<Rightarrow> int" where
  "euler_order_spec axis parity rep frame =
     push_bit 1 (push_bit 1 (push_bit 1 axis OR parity) OR rep) OR frame"

text \<open>
  Modelled from the spec: the unpacking half of the euler order codec, which is not in
  types.h (the header only packs). The specification describes the descriptor as the four
  choices packed by nested one-bit shifts, and the codec as packing and unpacking that
  descriptor; unpacking reads the fields back from their bit positions: frame is bit 0,
  repetition bit 1, parity bit 2, and the initial axis the bits above.
\<close>

definition euler_order_decode :: "int \<Rightarrow> int \<times> int \<times> int \<times> int" where
  "euler_order_decode order =
     (drop_bit 3 order, drop_bit 2 order AND 1, drop_bit 1 order AND 1, order AND 1)"

section \<open>The matrix union (vector/types.h)\<close>

text \<open>
  \<^verbatim>\<open>union matrix_t\<close> overlays four members on the same 64 bytes: the struct
  \<^verbatim>\<open>comp\<close> of sixteen named \<^verbatim>\<open>float32_t\<close> fields, the array \<^verbatim>\<open>arr[16]\<close>, the array
  of arrays \<^verbatim>\<open>frow[4][4]\<close> and the array of vectors \<^verbatim>\<open>row[4]\<close>. The object is modelled
  as a byte store addressed from the start of the union, where every member of a union
  begins; a \<^verbatim>\<open>float32_t\<close> is its 32-bit object representation, stored in four bytes,
  least significant first.
\<close>

type_synonym byte = "8 word"
type_synonym float32_t = "32 word"
type_synonym memory = "nat \<Rightarrow> byte"

definition sizeof_float32_t :: nat where
  "sizeof_float32_t = 4"

definition float32_byte :: "float32_t \<Rightarrow> nat \<Rightarrow> byte" where
  "float32_byte v k = ucast (drop_bit (8 * k) v)"

definition store_float32 :: "memory \<Rightarrow> nat \<Rightarrow> float32_t \<Rightarrow> memory" where
  "store_float32 mem addr v =
     mem(addr := float32_byte v 0, addr + 1 := float32_byte v 1,
         addr + 2 := float32_byte v 2, addr + 3 := float32_byte v 3)"

definition load_float32 :: "memory \<Rightarrow> nat \<Rightarrow> float32_t" where
  "load_float32 mem addr =
     ucast (mem addr) OR push_bit 8 (ucast (mem (addr + 1)))
       OR push_bit 16 (ucast (mem (addr + 2))) OR push_bit 24 (ucast (mem (addr + 3)))"

text \<open>
  The members of the two structs, in the order of their declaration. Every member is a
  \<^verbatim>\<open>float32_t\<close>, so each one starts where the one before it ends: the static assertions
  at the end of types.h (\<^verbatim>\<open>sizeof(vector_t) == sizeof(float32_t) * 4\<close>,
  \<^verbatim>\<open>sizeof(matrix_t) == sizeof(float32_t) * 16\<close>) leave no room for padding.
\<close>

definition vector_t_members :: "string list" where
  "vector_t_members = [''x'', ''y'', ''z'', ''w'']"

definition matrix_component_t_members :: "string list" where
  "matrix_component_t_members =
     [''m00'', ''m01'', ''m02'', ''m03'',
      ''m10'', ''m11'', ''m12'', ''m13'',
      ''m20'', ''m21'', ''m22'', ''m23'',
      ''m30'', ''m31'', ''m32'', ''m33'']"

fun member_index :: "string list \<Rightarrow> string \<Rightarrow> nat" where
  "member_index [] name = 0"
| "member_index (n # ns) name = (if n = name then 0 else Suc (member_index ns name))"

definition offsetof :: "string list \<Rightarrow> string \<Rightarrow> nat" where
  "offsetof members name = member_index members name * sizeof_float32_t"

definition sizeof_vector_t :: nat where
  "sizeof_vector_t = length vector_t_members * sizeof_float32_t"

definition sizeof_matrix_t :: nat where
  "sizeof_matrix_t = 16 * sizeof_float32_t"

text \<open>
  The byte offset of an element reached through each member of the union:
  \<^verbatim>\<open>comp.name\<close>, \<^verbatim>\<open>arr[i]\<close>, \<^verbatim>\<open>frow[r][c]\<close> (an array of four \<^verbatim>\<open>float32_t[4]\<close>) and
  \<^verbatim>\<open>row[r].lane\<close> (an array of four \<^verbatim>\<open>vector_t\<close>).
\<close>

definition comp_offset :: "string \<Rightarrow> nat" where
  "comp_offset name = offsetof matrix_component_t_members name"

definition arr_offset :: "nat \<Rightarrow> nat" where
  "arr_offset i = i * sizeof_float32_t"

definition frow_offset :: "nat \<Rightarrow> nat \<Rightarrow> nat" where
  "frow_offset r c = r * (4 * sizeof_float32_t) + c * sizeof_float32_t"

definition row_offset :: "nat \<Rightarrow> string \<Rightarrow> nat" where
  "row_offset r lane = r * sizeof_vector_t + offsetof vector_t_members lane"

text \<open>
  The names of the source: the component of row \<open>r\<close> and column \<open>c\<close> is the field
  \<^verbatim>\<open>mrc\<close>, and lanes 0 to 3 of a vector are its members \<^verbatim>\<open>x\<close>, \<^verbatim>\<open>y\<close>, \<^verbatim>\<open>z\<close>, \<^verbatim>\<open>w\<close>.
  Rows, columns and lanes run from 0 to 3; there is no field and no lane beyond, and the
  names are only used below for indices in that range. This is the portable
  \<^verbatim>\<open>struct vector_t\<close>; in the SSE builds \<^verbatim>\<open>vector_t\<close> is \<^verbatim>\<open>__m128\<close>, four
  consecutive floats without member names, with lane \<open>k\<close> at the same offset.
\<close>

definition comp_name :: "nat \<Rightarrow> nat \<Rightarrow> string" where
  "comp_name r c = [CHR ''m'', ''0123'' ! r, ''0123'' ! c]"

definition lane_name :: "nat \<Rightarrow> string" where
  "lane_name k = [''xyzw'' ! k]"

datatype matrix_view = View_comp | View_arr | View_frow | View_row

fun element_offset :: "matrix_view \<Rightarrow> nat \<Rightarrow> nat \<Rightarrow> nat" where
  "element_offset View_comp r c = comp_offset (comp_name r c)"
| "element_offset View_arr r c = arr_offset (4 * r + c)"
| "element_offset View_frow r c = frow_offset r c"
| "element_offset View_row r c = row_offset r (lane_name c)"

definition matrix_read :: "memory \<Rightarrow> matrix_view \<Rightarrow> nat \<Rightarrow> nat \<Rightarrow> float32_t" where
  "matrix_read m v r c = load_float32 m (element_offset v r c)"

definition matrix_write :: "memory \<Rightarrow> matrix_view \<Rightarrow> nat \<Rightarrow> nat \<Rightarrow> float32_t \<Rightarrow> memory" where
  "matrix_write m v r c val = store_float32 m (element_offset v r c) val"

section \<open>Quaternions (vector/quaternion.h)\<close>

text \<open>
  The portable \<^verbatim>\<open>struct vector_t\<close> of types.h: four \<^verbatim>\<open>float32_t\<close> lanes, each held as
  its IEEE 754 binary32 bit pattern (bit 31 is the sign). \<^verbatim>\<open>quaternion_t\<close> is a typedef
  of \<^verbatim>\<open>vector_t\<close>.
\<close>

record vector_t =
  x :: float32_t
  y :: float32_t
  z :: float32_t
  w :: float32_t

type_synonym quaternion_t = vector_t

text \<open>Negation of a binary32 value (the unary minus of C) inverts the sign bit.\<close>

definition float32_neg :: "float32_t \<Rightarrow> float32_t" where
  "float32_neg v = v XOR push_bit 31 1"

text \<open>
  Modelled from the spec: the body of \<^verbatim>\<open>quaternion_conjugate\<close>, which quaternion.h only
  declares (the bodies are in the backend headers it includes). The specification and the
  comment above the declaration give \<^verbatim>\<open>q' = (-q.x, -q.y, -q.z, q.w)\<close>.
\<close>

definition quaternion_conjugate :: "quaternion_t \<Rightarrow> quaternion_t" where
  "quaternion_conjugate q =
     \<lparr>x = float32_neg (x q), y = float32_neg (y q), z = float32_neg (z q), w = w q\<rparr>"

section \<open>Properties of the euler order descriptors\<close>


lemma euler_angles_orders_UNIV: "set euler_angles_orders = UNIV"
proof -
  have "e \<in> set euler_angles_orders" for e
    by (cases e) (simp_all add: euler_angles_orders_def)
  then show ?thesis by auto
qed

lemma euler_order_values_listed:
  "map euler_order_value euler_angles_orders =
     [0, 2, 4, 6, 8, 10, 12, 14, 16, 18, 20, 22, 1, 3, 5, 7, 9, 11, 13, 15, 17, 19, 21, 23]"
  by (simp add: euler_angles_orders_def euler_order_value_def VECTOR_GETEULERORDER_def
      euler_flag_defs)

lemma int_0_23: "{0..23::int} = {0, 1, 2, 3, 4, 5, 6, 7, 8, 9, 10, 11, 12, 13, 14, 15, 16,
    17, 18, 19, 20, 21, 22, 23}"
proof -
  have "{0..23::int} = set [0..23]"
    by (simp only: set_upto)
  also have "\<dots> = {0, 1, 2, 3, 4, 5, 6, 7, 8, 9, 10, 11, 12, 13, 14, 15, 16,
    17, 18, 19, 20, 21, 22, 23}"
    by (simp del: set_upto add: upto.simps)
  finally show ?thesis .
qed

lemma euler_order_in_range_cases:
  assumes "euler_order_in_range i p r f"
  shows "(i = 0 \<or> i = 1 \<or> i = 2) \<and> (p = 0 \<or> p = 1) \<and> (r = 0 \<or> r = 1) \<and> (f = 0 \<or> f = 1)"
  using assms by (simp add: euler_order_in_range_def)

lemma VECTOR_GETEULERORDER_eq_spec:
  assumes "euler_order_in_range i p r f"
  shows "VECTOR_GETEULERORDER i p r f = euler_order_spec i p r f"
  using euler_order_in_range_cases [OF assms]
  by (auto simp add: VECTOR_GETEULERORDER_def euler_order_spec_def)

lemma euler_order_decode_encode:
  assumes "euler_order_in_range i p r f"
  shows "euler_order_decode (VECTOR_GETEULERORDER i p r f) = (i, p, r, f)"
  using euler_order_in_range_cases [OF assms]
  by (auto simp add: VECTOR_GETEULERORDER_def euler_order_decode_def)

lemma euler_order_args_in_range:
  "case euler_order_args e of (i, p, r, f) \<Rightarrow> euler_order_in_range i p r f"
  by (cases e) (simp_all add: euler_order_in_range_def euler_flag_defs)

lemma euler_order_decode_value: "euler_order_decode (euler_order_value e) = euler_order_args e"
proof -
  obtain i p r f where args: "euler_order_args e = (i, p, r, f)"
    by (cases "euler_order_args e") auto
  with euler_order_args_in_range [of e] have "euler_order_in_range i p r f" by simp
  then show ?thesis
    by (simp add: euler_order_value_def args euler_order_decode_encode)
qed

lemma VECTOR_GETEULERORDER_linear:
  "VECTOR_GETEULERORDER i p r f = 8 * i + 4 * p + 2 * r + f"
  by (simp add: VECTOR_GETEULERORDER_def push_bit_eq_mult)

lemma double_plus_bit_inj:
  fixes a b c d :: int
  assumes "b = 0 \<or> b = 1" and "d = 0 \<or> d = 1" and "2 * a + b = 2 * c + d"
  shows "a = c \<and> b = d"
  using assms by presburger

lemma VECTOR_GETEULERORDER_inj:
  assumes "euler_order_in_range i p r f" and "euler_order_in_range i' p' r' f'"
    and "VECTOR_GETEULERORDER i p r f = VECTOR_GETEULERORDER i' p' r' f'"
  shows "i = i' \<and> p = p' \<and> r = r' \<and> f = f'"
proof -
  note c = euler_order_in_range_cases [OF assms(1)] euler_order_in_range_cases [OF assms(2)]
  from assms(3) have "2 * (4 * i + 2 * p + r) + f = 2 * (4 * i' + 2 * p' + r') + f'"
    by (simp add: VECTOR_GETEULERORDER_linear)
  with c have 1: "4 * i + 2 * p + r = 4 * i' + 2 * p' + r'" and f: "f = f'"
    using double_plus_bit_inj [of f f' "4 * i + 2 * p + r" "4 * i' + 2 * p' + r'"] by simp_all
  from 1 have "2 * (2 * i + p) + r = 2 * (2 * i' + p') + r'"
    by simp
  with c have 2: "2 * i + p = 2 * i' + p'" and r: "r = r'"
    using double_plus_bit_inj [of r r' "2 * i + p" "2 * i' + p'"] by simp_all
  from 2 c have "i = i' \<and> p = p'"
    using double_plus_bit_inj [of p p' i i'] by simp
  with f r show ?thesis by simp
qed

lemma euler_order_value_inj: "inj euler_order_value"
proof -
  have "distinct (map euler_order_value euler_angles_orders)"
    unfolding euler_order_values_listed by simp
  then have "inj_on euler_order_value (set euler_angles_orders)"
    by (simp add: distinct_map)
  then show ?thesis
    by (simp only: euler_angles_orders_UNIV)
qed

lemma euler_order_value_range: "range euler_order_value = {0..23}"
proof -
  have "range euler_order_value = set (map euler_order_value euler_angles_orders)"
    by (simp only: set_map euler_angles_orders_UNIV)
  also have "\<dots> = {0..23}"
    unfolding euler_order_values_listed int_0_23 by auto
  finally show ?thesis .
qed

text \<open>
  C2: on the domain of the descriptor (axis 0, 1 or 2; parity, repetition and frame 0 or
  1) the macro computes the nested shift-and-or formula of the specification, and decoding
  the encoded value gives back the tuple that was encoded; each of the 24 named orders is
  the encoding of an in-range tuple and decodes to the arguments of its initialiser.
\<close>

theorem euler_order_codec_roundtrip:
  "(\<forall>i p r f. euler_order_in_range i p r f \<longrightarrow>
        VECTOR_GETEULERORDER i p r f = euler_order_spec i p r f
      \<and> euler_order_decode (VECTOR_GETEULERORDER i p r f) = (i, p, r, f))
    \<and> (\<forall>e. (case euler_order_args e of (i, p, r, f) \<Rightarrow> euler_order_in_range i p r f)
          \<and> euler_order_decode (euler_order_value e) = euler_order_args e)"
proof (intro conjI allI impI)
  fix i p r f
  assume h: "euler_order_in_range i p r f"
  show "VECTOR_GETEULERORDER i p r f = euler_order_spec i p r f"
    by (rule VECTOR_GETEULERORDER_eq_spec [OF h])
  show "euler_order_decode (VECTOR_GETEULERORDER i p r f) = (i, p, r, f)"
    by (rule euler_order_decode_encode [OF h])
next
  show "case euler_order_args e of (i, p, r, f) \<Rightarrow> euler_order_in_range i p r f" for e
    by (rule euler_order_args_in_range)
  show "euler_order_decode (euler_order_value e) = euler_order_args e" for e
    by (rule euler_order_decode_value)
qed

theorem euler_order_codec_roundtrip_witness:
  "euler_order_in_range 2 1 0 1
    \<and> VECTOR_GETEULERORDER 2 1 0 1 = 21 \<and> euler_order_spec 2 1 0 1 = 21
    \<and> euler_order_decode 21 = (2, 1, 0, 1)
    \<and> euler_order_value EULER_YXYr = 15
    \<and> euler_order_decode 15 = euler_order_args EULER_YXYr"
proof -
  have h: "euler_order_in_range 2 1 0 1"
    by (simp add: euler_order_in_range_def)
  have v: "VECTOR_GETEULERORDER 2 1 0 1 = 21"
    by (simp add: VECTOR_GETEULERORDER_def)
  have e: "euler_order_value EULER_YXYr = 15"
    by (simp add: euler_order_value_def VECTOR_GETEULERORDER_def euler_flag_defs)
  from euler_order_codec_roundtrip
  have "euler_order_in_range 2 1 0 1 \<longrightarrow>
        VECTOR_GETEULERORDER 2 1 0 1 = euler_order_spec 2 1 0 1
      \<and> euler_order_decode (VECTOR_GETEULERORDER 2 1 0 1) = (2, 1, 0, 1)"
    and "euler_order_decode (euler_order_value EULER_YXYr) = euler_order_args EULER_YXYr"
    by blast+
  with h v e show ?thesis
    by metis
qed

text \<open>
  C10: the 24 named euler orders have pairwise distinct values, the values are exactly the
  integers 0 to 23, the encoding maps different in-range tuples to different values, and
  \<^verbatim>\<open>EULER_DEFAULTORDER\<close> has the value of \<^verbatim>\<open>EULER_XYZs\<close>, which is 0.
\<close>

theorem euler_order_values_distinct:
  "inj euler_order_value
    \<and> distinct (map euler_order_value euler_angles_orders)
    \<and> length euler_angles_orders = 24
    \<and> range euler_order_value = {0..23}
    \<and> (\<forall>i p r f i' p' r' f'.
          euler_order_in_range i p r f \<and> euler_order_in_range i' p' r' f'
            \<and> (i, p, r, f) \<noteq> (i', p', r', f')
          \<longrightarrow> VECTOR_GETEULERORDER i p r f \<noteq> VECTOR_GETEULERORDER i' p' r' f')
    \<and> EULER_DEFAULTORDER = euler_order_value EULER_XYZs
    \<and> euler_order_value EULER_XYZs = 0"
proof -
  have "VECTOR_GETEULERORDER i p r f \<noteq> VECTOR_GETEULERORDER i' p' r' f'"
    if "euler_order_in_range i p r f" and "euler_order_in_range i' p' r' f'"
      and "(i, p, r, f) \<noteq> (i', p', r', f')" for i p r f i' p' r' f'
    using VECTOR_GETEULERORDER_inj [OF that(1) that(2)] that(3) by auto
  moreover have "distinct (map euler_order_value euler_angles_orders)"
    unfolding euler_order_values_listed by simp
  moreover have "length euler_angles_orders = 24"
    by (simp add: euler_angles_orders_def)
  moreover have "EULER_DEFAULTORDER = euler_order_value EULER_XYZs"
    by (simp add: EULER_DEFAULTORDER_def euler_order_value_def)
  moreover have "euler_order_value EULER_XYZs = 0"
    by (simp add: euler_order_value_def VECTOR_GETEULERORDER_def euler_flag_defs)
  ultimately show ?thesis
    using euler_order_value_inj euler_order_value_range by blast
qed

theorem euler_order_values_distinct_witness:
  "euler_order_in_range 0 1 1 1 \<and> euler_order_in_range 1 0 0 0
    \<and> VECTOR_GETEULERORDER 0 1 1 1 = 7 \<and> VECTOR_GETEULERORDER 1 0 0 0 = 8
    \<and> VECTOR_GETEULERORDER 0 1 1 1 \<noteq> VECTOR_GETEULERORDER 1 0 0 0
    \<and> EULER_DEFAULTORDER = 0"
proof -
  have h1: "euler_order_in_range 0 1 1 1" and h2: "euler_order_in_range 1 0 0 0"
    by (simp_all add: euler_order_in_range_def)
  have h3: "((0, 1, 1, 1) :: int \<times> int \<times> int \<times> int) \<noteq> (1, 0, 0, 0)"
    by simp
  have v: "VECTOR_GETEULERORDER 0 1 1 1 = 7" "VECTOR_GETEULERORDER 1 0 0 0 = 8"
    by (simp_all add: VECTOR_GETEULERORDER_def)
  from euler_order_values_distinct
  have "euler_order_in_range 0 1 1 1 \<and> euler_order_in_range 1 0 0 0
      \<and> ((0, 1, 1, 1) :: int \<times> int \<times> int \<times> int) \<noteq> (1, 0, 0, 0)
    \<longrightarrow> VECTOR_GETEULERORDER 0 1 1 1 \<noteq> VECTOR_GETEULERORDER 1 0 0 0"
    and "EULER_DEFAULTORDER = 0"
    by (blast, simp)
  with h1 h2 h3 v show ?thesis
    by simp
qed

section \<open>Properties of the matrix union\<close>

text \<open>A stored \<^verbatim>\<open>float32_t\<close> is read back bit for bit from the same address.\<close>

lemma float32_bytes_join:
  "ucast (float32_byte v 0) OR push_bit 8 (ucast (float32_byte v 1))
     OR push_bit 16 (ucast (float32_byte v 2)) OR push_bit 24 (ucast (float32_byte v 3)) = v"
proof (rule bit_word_eqI)
  fix n :: nat
  assume "n < LENGTH(32)"
  then have n: "n < 32" by simp
  consider "n < 8" | "8 \<le> n" "n < 16" | "16 \<le> n" "n < 24" | "24 \<le> n"
    by linarith
  then show "bit (ucast (float32_byte v 0) OR push_bit 8 (ucast (float32_byte v 1))
     OR push_bit 16 (ucast (float32_byte v 2)) OR push_bit 24 (ucast (float32_byte v 3)) :: float32_t) n
      = bit v n"
    using n by cases (auto simp add: float32_byte_def bit_simps)
qed

lemma load_store_float32: "load_float32 (store_float32 mem addr v) addr = v"
  unfolding load_float32_def store_float32_def
  using float32_bytes_join [of v] by simp

lemma lt4_cases: "n < 4 \<Longrightarrow> n = 0 \<or> n = 1 \<or> n = 2 \<or> n = (3::nat)"
  by auto

lemma comp_offset_eq:
  assumes "r < 4" and "c < 4"
  shows "comp_offset (comp_name r c) = 4 * (4 * r + c)"
  using lt4_cases [OF assms(1)] lt4_cases [OF assms(2)]
  by (elim disjE; simp add: comp_offset_def comp_name_def offsetof_def
      matrix_component_t_members_def sizeof_float32_t_def)

lemma row_offset_eq:
  assumes "c < 4"
  shows "row_offset r (lane_name c) = 4 * (4 * r + c)"
  using lt4_cases [OF assms]
  by (elim disjE; simp add: row_offset_def lane_name_def offsetof_def
      vector_t_members_def sizeof_float32_t_def sizeof_vector_t_def)

lemma element_offset_eq:
  assumes "r < 4" and "c < 4"
  shows "element_offset v r c = 4 * (4 * r + c)"
  by (cases v) (simp_all add: comp_offset_eq [OF assms] row_offset_eq [OF assms(2)]
      arr_offset_def frow_offset_def sizeof_float32_t_def)

text \<open>
  C1: for every matrix object and every element position with row and column below 4, the
  four access paths (the named field \<^verbatim>\<open>comp.mRC\<close>, \<^verbatim>\<open>arr[4*row + column]\<close>,
  \<^verbatim>\<open>frow[row][column]\<close> and lane \<open>column\<close> of \<^verbatim>\<open>row[row]\<close>) address the same four
  bytes inside the 64 bytes of the union, so a read through any view returns the same bits
  as a read through any other, and a value written through any view is read back, bit for
  bit, through any other.
\<close>

theorem matrix_views_agree:
  assumes "row < 4" and "column < 4"
  shows "element_offset v1 row column = element_offset v2 row column
    \<and> element_offset v1 row column + sizeof_float32_t \<le> sizeof_matrix_t
    \<and> matrix_read m v1 row column = matrix_read m v2 row column
    \<and> matrix_read (matrix_write m v1 row column val) v2 row column = val"
proof -
  have eq: "element_offset v1 row column = element_offset v2 row column"
    by (simp add: element_offset_eq [OF assms])
  have "4 * row + column < 16"
    using assms by linarith
  then have "element_offset v1 row column + sizeof_float32_t \<le> sizeof_matrix_t"
    by (simp add: element_offset_eq [OF assms] sizeof_float32_t_def sizeof_matrix_t_def)
  moreover have "matrix_read m v1 row column = matrix_read m v2 row column"
    by (simp add: matrix_read_def eq)
  moreover have "matrix_read (matrix_write m v1 row column val) v2 row column = val"
    by (simp add: matrix_read_def matrix_write_def eq load_store_float32)
  ultimately show ?thesis
    using eq by simp
qed

theorem matrix_views_agree_witness:
  "(1::nat) < 4 \<and> (2::nat) < 4
    \<and> element_offset View_comp 1 2 = 24 \<and> element_offset View_row 1 2 = 24
    \<and> matrix_read (matrix_write (\<lambda>_. 0) View_comp 1 2 0x3F800000) View_row 1 2 = 0x3F800000"
proof -
  have h1: "(1::nat) < 4" and h2: "(2::nat) < 4"
    by simp_all
  have o: "element_offset View_comp 1 2 = 24"
    by (simp add: comp_offset_def comp_name_def offsetof_def
      matrix_component_t_members_def sizeof_float32_t_def)
  from matrix_views_agree [OF h1 h2, of View_comp View_row "\<lambda>_. 0" "0x3F800000"] o
  show ?thesis by simp
qed

section \<open>Properties of the quaternion conjugate\<close>

text \<open>Negation changes the sign bit and nothing else, and undoes itself.\<close>

lemma float32_neg_bit:
  "bit (float32_neg v) n \<longleftrightarrow> (if n = 31 then \<not> bit v n else bit v n)"
  unfolding float32_neg_def bit_xor_iff bit_push_bit_iff bit_1_iff
  by (auto dest: bit_imp_le_length)

lemma float32_neg_involution: "float32_neg (float32_neg v) = v"
  by (simp add: float32_neg_def xor.assoc)

text \<open>
  C3: the conjugate of the quaternion \<open>(a, b, c, d)\<close> is \<open>(-a, -b, -c, d)\<close>, and
  conjugating twice gives back the quaternion bit for bit.
\<close>

theorem quaternion_conjugate_involution:
  "quaternion_conjugate \<lparr>x = a, y = b, z = c, w = d\<rparr>
      = \<lparr>x = float32_neg a, y = float32_neg b, z = float32_neg c, w = d\<rparr>
    \<and> quaternion_conjugate (quaternion_conjugate q) = q"
  by (simp add: quaternion_conjugate_def float32_neg_involution)

end
